theory Spec2Isabelle
  imports Main
begin

section \<open>Data model of \<open>main.py\<close>\<close>

text \<open>
  \<open>class Color(Enum)\<close> has the two members \<open>WHITE\<close> and \<open>BLACK\<close>. Every piece class
  (\<open>King\<close>, \<open>Queen\<close>, \<open>Rook\<close>, \<open>Bishop\<close>, \<open>Knight\<close>, \<open>Pawn\<close>) derives from \<open>Piece\<close>,
  whose only field is \<open>color\<close>; the class of the object selects the \<open>can_move\<close> that runs.
  No method of the program assigns to \<open>color\<close> after construction, so a piece is modelled
  by its value.
\<close>

datatype color = WHITE | BLACK

datatype kind = King | Queen | Rook | Bishop | Knight | Pawn

datatype piece = Piece (kind: kind) (color: color)

text \<open>
  A position is a Python tuple \<open>(row, col)\<close> of unbounded integers. The grid
  \<open>Board.board\<close> is a list of row lists whose entries are a piece or \<open>None\<close>.
\<close>

type_synonym pos = "int \<times> int"

type_synonym board = "piece option list list"

text \<open>The exceptions that the modelled code can raise.\<close>

datatype error = IndexError | AttributeError

subsection \<open>Python list indexing\<close>

text \<open>
  \<open>xs[i]\<close>: an index in \<open>[0, len)\<close> reads that element, an index in \<open>[-len, 0)\<close> counts
  from the end, every other index raises \<open>IndexError\<close>. \<open>py_norm\<close> is the element that
  an index denotes, when it denotes one.
\<close>

definition py_norm :: "nat \<Rightarrow> int \<Rightarrow> nat option" where
  "py_norm n i =
     (if 0 \<le> i \<and> i < int n then Some (nat i)
      else if - int n \<le> i \<and> i < 0 then Some (nat (int n + i))
      else None)"

definition py_getitem :: "'a list \<Rightarrow> int \<Rightarrow> error + 'a" where
  "py_getitem xs i =
     (case py_norm (length xs) i of None \<Rightarrow> Inl IndexError | Some k \<Rightarrow> Inr (xs ! k))"

definition py_setitem :: "'a list \<Rightarrow> int \<Rightarrow> 'a \<Rightarrow> error + 'a list" where
  "py_setitem xs i v =
     (case py_norm (length xs) i of None \<Rightarrow> Inl IndexError | Some k \<Rightarrow> Inr (xs[k := v]))"

text \<open>
  \<open>self.board[r][c]\<close> and \<open>self.board[r][c] = v\<close>. The rows are distinct list objects
  (built by the comprehension in \<open>Board.__init__\<close>), so the assignment changes one row.
\<close>

definition grid_get :: "board \<Rightarrow> pos \<Rightarrow> error + piece option" where
  "grid_get b p =
     (case py_getitem b (fst p) of
        Inl e \<Rightarrow> Inl e
      | Inr row \<Rightarrow> py_getitem row (snd p))"

definition grid_set :: "board \<Rightarrow> pos \<Rightarrow> piece option \<Rightarrow> error + board" where
  "grid_set b p v =
     (case py_norm (length b) (fst p) of
        None \<Rightarrow> Inl IndexError
      | Some k \<Rightarrow>
          (case py_setitem (b ! k) (snd p) v of
             Inl e \<Rightarrow> Inl e
           | Inr row \<Rightarrow> Inr (b[k := row])))"

section \<open>The methods of class \<open>Board\<close>\<close>

text \<open>
  The names that \<open>class Board\<close> defines, in source order, and the instance attribute set
  by \<open>__init__\<close>. Looking up any other name on a \<open>Board\<close> object raises
  \<open>AttributeError\<close>.
\<close>

definition Board_methods :: "string list" where
  "Board_methods =
     [''__init__'', ''setup_pieces'', ''is_valid_move'', ''move_piece'', ''to_json'']"

definition Board_attributes :: "string list" where
  "Board_attributes = [''board'']"

definition Board_getattr :: "string \<Rightarrow> error + string" where
  "Board_getattr name =
     (if name \<in> set Board_methods \<or> name \<in> set Board_attributes then Inr name
      else Inl AttributeError)"

text \<open>
  Every \<open>can_move\<close> evaluates \<open>board.is_occupied(...)\<close> or \<open>board.get_piece(...)\<close> on a
  \<open>Board\<close>. Neither name is among those the class defines, there is no \<open>__getattr__\<close>
  and no base class other than \<open>object\<close>, and \<open>main.py\<close> is the whole program: the
  attribute lookup raises \<open>AttributeError\<close> before any argument is looked at.
\<close>

definition is_occupied :: "board \<Rightarrow> pos \<Rightarrow> error + bool" where
  "is_occupied b p = Inl AttributeError"

definition get_piece :: "board \<Rightarrow> pos \<Rightarrow> error + piece option" where
  "get_piece b p = Inl AttributeError"

section \<open>The legality predicates \<open>can_move\<close>\<close>

text \<open>
  The closing test shared by King, Queen, Rook, Bishop and Knight:
  \<open>not board.is_occupied(end_pos) or board.get_piece(end_pos).color != self.color\<close>.
  The right operand is evaluated only when the square is occupied; \<open>.color\<close> on \<open>None\<close>
  would raise \<open>AttributeError\<close>.
\<close>

definition dest_free_or_enemy :: "color \<Rightarrow> board \<Rightarrow> pos \<Rightarrow> error + bool" where
  "dest_free_or_enemy c b end_pos =
     (case is_occupied b end_pos of
        Inl e \<Rightarrow> Inl e
      | Inr occ \<Rightarrow>
          if \<not> occ then Inr True
          else (case get_piece b end_pos of
                  Inl e \<Rightarrow> Inl e
                | Inr None \<Rightarrow> Inl AttributeError
                | Inr (Some q) \<Rightarrow> Inr (color q \<noteq> c)))"

text \<open>
  The loop of Queen, Rook and Bishop:
  \<^verbatim>\<open>
  while (current_row, current_col) != (end_row, end_col):
      if board.is_occupied((current_row, current_col)):
          return False
      current_row += row_step
      current_col += col_step
  \<close>
  The result is \<open>None\<close> when the loop runs forever, \<open>Some (Inl e)\<close> when \<open>is_occupied\<close>
  raises, \<open>Some (Inr False)\<close> when the loop executes \<open>return False\<close> and
  \<open>Some (Inr True)\<close> when the loop condition fails and control leaves the loop.
\<close>

partial_function (option) path_walk ::
  "board \<Rightarrow> pos \<Rightarrow> pos \<Rightarrow> pos \<Rightarrow> (error + bool) option" where
  "path_walk b cur step end_pos =
     (if cur = end_pos then Some (Inr True)
      else (case is_occupied b cur of
              Inl e \<Rightarrow> Some (Inl e)
            | Inr occ \<Rightarrow>
                if occ then Some (Inr False)
                else path_walk b (fst cur + fst step, snd cur + snd step) step end_pos))"

declare path_walk.simps [code]

text \<open>What follows the loop in the three sliding pieces.\<close>

definition slide :: "color \<Rightarrow> board \<Rightarrow> pos \<Rightarrow> pos \<Rightarrow> pos \<Rightarrow> (error + bool) option" where
  "slide c b start_pos step end_pos =
     (case path_walk b (fst start_pos + fst step, snd start_pos + snd step) step end_pos of
        None \<Rightarrow> None
      | Some (Inl e) \<Rightarrow> Some (Inl e)
      | Some (Inr False) \<Rightarrow> Some (Inr False)
      | Some (Inr True) \<Rightarrow> Some (dest_free_or_enemy c b end_pos))"

definition King_can_move :: "color \<Rightarrow> board \<Rightarrow> pos \<Rightarrow> pos \<Rightarrow> error + bool" where
  "King_can_move c b start_pos end_pos =
     (if \<bar>fst end_pos - fst start_pos\<bar> \<le> 1 \<and> \<bar>snd end_pos - snd start_pos\<bar> \<le> 1
      then dest_free_or_enemy c b end_pos
      else Inr False)"

definition Queen_can_move :: "color \<Rightarrow> board \<Rightarrow> pos \<Rightarrow> pos \<Rightarrow> (error + bool) option" where
  "Queen_can_move c b start_pos end_pos =
     (if fst start_pos = fst end_pos \<or> snd start_pos = snd end_pos
         \<or> \<bar>fst end_pos - fst start_pos\<bar> = \<bar>snd end_pos - snd start_pos\<bar>
      then
        let row_step = (if fst start_pos = fst end_pos then 0
                        else if fst end_pos > fst start_pos then 1 else - 1);
            col_step = (if snd start_pos = snd end_pos then 0
                        else if snd end_pos > snd start_pos then 1 else - 1)
        in slide c b start_pos (row_step, col_step) end_pos
      else Some (Inr False))"

definition Rook_can_move :: "color \<Rightarrow> board \<Rightarrow> pos \<Rightarrow> pos \<Rightarrow> (error + bool) option" where
  "Rook_can_move c b start_pos end_pos =
     (if fst start_pos = fst end_pos \<or> snd start_pos = snd end_pos
      then
        let row_step = (if fst start_pos = fst end_pos then 0
                        else if fst end_pos > fst start_pos then 1 else - 1);
            col_step = (if snd start_pos = snd end_pos then 0
                        else if snd end_pos > snd start_pos then 1 else - 1)
        in slide c b start_pos (row_step, col_step) end_pos
      else Some (Inr False))"

definition Bishop_can_move :: "color \<Rightarrow> board \<Rightarrow> pos \<Rightarrow> pos \<Rightarrow> (error + bool) option" where
  "Bishop_can_move c b start_pos end_pos =
     (if \<bar>fst end_pos - fst start_pos\<bar> = \<bar>snd end_pos - snd start_pos\<bar>
      then
        let row_step = (if fst end_pos > fst start_pos then 1 else - 1);
            col_step = (if snd end_pos > snd start_pos then 1 else - 1)
        in slide c b start_pos (row_step, col_step) end_pos
      else Some (Inr False))"

definition Knight_can_move :: "color \<Rightarrow> board \<Rightarrow> pos \<Rightarrow> pos \<Rightarrow> error + bool" where
  "Knight_can_move c b start_pos end_pos =
     (if (\<bar>fst end_pos - fst start_pos\<bar> = 2 \<and> \<bar>snd end_pos - snd start_pos\<bar> = 1)
         \<or> (\<bar>fst end_pos - fst start_pos\<bar> = 1 \<and> \<bar>snd end_pos - snd start_pos\<bar> = 2)
      then dest_free_or_enemy c b end_pos
      else Inr False)"

text \<open>
  \<open>Pawn.can_move\<close>. Each \<open>if\<close> without an \<open>else\<close> falls through to the final
  \<open>return False\<close>; the \<open>elif\<close> is tried only when the one-step test fails.
\<close>

definition Pawn_can_move :: "color \<Rightarrow> board \<Rightarrow> pos \<Rightarrow> pos \<Rightarrow> error + bool" where
  "Pawn_can_move c b start_pos end_pos =
     (let row_step = (if c = WHITE then 1 else - 1) in
      if snd start_pos = snd end_pos then
        if fst start_pos + row_step = fst end_pos then
          (case is_occupied b end_pos of
             Inl e \<Rightarrow> Inl e
           | Inr occ \<Rightarrow> Inr (\<not> occ))
        else if fst start_pos + 2 * row_step = fst end_pos
                \<and> ((c = WHITE \<and> fst start_pos = 1) \<or> (c = BLACK \<and> fst start_pos = 6)) then
          (case is_occupied b (fst start_pos + row_step, snd start_pos) of
             Inl e \<Rightarrow> Inl e
           | Inr occ_mid \<Rightarrow>
               if occ_mid then Inr False
               else (case is_occupied b end_pos of
                       Inl e \<Rightarrow> Inl e
                     | Inr occ \<Rightarrow> Inr (\<not> occ)))
        else Inr False
      else
        if \<bar>snd start_pos - snd end_pos\<bar> = 1 \<and> fst start_pos + row_step = fst end_pos then
          (case get_piece b end_pos of
             Inl e \<Rightarrow> Inl e
           | Inr None \<Rightarrow> Inr False
           | Inr (Some q) \<Rightarrow> Inr (color q \<noteq> c))
        else Inr False)"

text \<open>Method dispatch on the class of the piece.\<close>

definition can_move :: "piece \<Rightarrow> board \<Rightarrow> pos \<Rightarrow> pos \<Rightarrow> (error + bool) option" where
  "can_move p b start_pos end_pos =
     (case kind p of
        King \<Rightarrow> Some (King_can_move (color p) b start_pos end_pos)
      | Queen \<Rightarrow> Queen_can_move (color p) b start_pos end_pos
      | Rook \<Rightarrow> Rook_can_move (color p) b start_pos end_pos
      | Bishop \<Rightarrow> Bishop_can_move (color p) b start_pos end_pos
      | Knight \<Rightarrow> Some (Knight_can_move (color p) b start_pos end_pos)
      | Pawn \<Rightarrow> Some (Pawn_can_move (color p) b start_pos end_pos))"

section \<open>\<open>Board\<close>: set-up, legality gate and move application\<close>

text \<open>
  \<open>Board.setup_pieces\<close> is a sequence of 32 assignments \<open>self.board[r][c] = K(color)\<close>:
  the White back rank, the loop over row 1, the Black back rank, the loop over row 6.
  It assigns to no square of rows 2 to 5.
\<close>

definition setup_assignments :: "(pos \<times> piece) list" where
  "setup_assignments =
     [((0, 0), Piece Rook WHITE), ((0, 1), Piece Knight WHITE), ((0, 2), Piece Bishop WHITE),
      ((0, 3), Piece Queen WHITE), ((0, 4), Piece King WHITE), ((0, 5), Piece Bishop WHITE),
      ((0, 6), Piece Knight WHITE), ((0, 7), Piece Rook WHITE)]
     @ map (\<lambda>i. ((1, int i), Piece Pawn WHITE)) [0..<8]
     @ [((7, 0), Piece Rook BLACK), ((7, 1), Piece Knight BLACK), ((7, 2), Piece Bishop BLACK),
        ((7, 3), Piece Queen BLACK), ((7, 4), Piece King BLACK), ((7, 5), Piece Bishop BLACK),
        ((7, 6), Piece Knight BLACK), ((7, 7), Piece Rook BLACK)]
     @ map (\<lambda>i. ((6, int i), Piece Pawn BLACK)) [0..<8]"

fun assign_all :: "board \<Rightarrow> (pos \<times> piece) list \<Rightarrow> error + board" where
  "assign_all b [] = Inr b"
| "assign_all b ((p, v) # rest) =
     (case grid_set b p (Some v) of Inl e \<Rightarrow> Inl e | Inr b' \<Rightarrow> assign_all b' rest)"

definition setup_pieces :: "board \<Rightarrow> error + board" where
  "setup_pieces b = assign_all b setup_assignments"

text \<open>
  \<open>Board.__init__\<close>: \<open>[[None for _ in range(8)] for _ in range(8)]\<close>, then
  \<open>setup_pieces\<close>.
\<close>

definition empty_grid :: board where
  "empty_grid = replicate 8 (replicate 8 None)"

definition Board_init :: "error + board" where
  "Board_init = setup_pieces empty_grid"

text \<open>\<open>Board.is_valid_move\<close>, check by check in source order.\<close>

definition is_valid_move :: "board \<Rightarrow> pos \<Rightarrow> pos \<Rightarrow> (error + bool) option" where
  "is_valid_move b start_pos end_pos =
     (if \<not> (0 \<le> fst start_pos \<and> fst start_pos < 8 \<and> 0 \<le> snd start_pos \<and> snd start_pos < 8
             \<and> 0 \<le> fst end_pos \<and> fst end_pos < 8 \<and> 0 \<le> snd end_pos \<and> snd end_pos < 8)
      then Some (Inr False)
      else (case grid_get b start_pos of
              Inl e \<Rightarrow> Some (Inl e)
            | Inr None \<Rightarrow> Some (Inr False)
            | Inr (Some p) \<Rightarrow>
                (case can_move p b start_pos end_pos of
                   None \<Rightarrow> None
                 | Some (Inl e) \<Rightarrow> Some (Inl e)
                 | Some (Inr ok) \<Rightarrow>
                     if \<not> ok then Some (Inr False)
                     else (case grid_get b end_pos of
                             Inl e \<Rightarrow> Some (Inl e)
                           | Inr None \<Rightarrow> Some (Inr True)
                           | Inr (Some q) \<Rightarrow>
                               if color q = color p then Some (Inr False)
                               else Some (Inr True)))))"

text \<open>
  \<open>Board.move_piece\<close> returns its boolean together with the grid it leaves behind. When an
  exception propagates the model reports the exception only.
\<close>

definition move_piece :: "board \<Rightarrow> pos \<Rightarrow> pos \<Rightarrow> (error + bool \<times> board) option" where
  "move_piece b start_pos end_pos =
     (case is_valid_move b start_pos end_pos of
        None \<Rightarrow> None
      | Some (Inl e) \<Rightarrow> Some (Inl e)
      | Some (Inr valid) \<Rightarrow>
          if valid then
            (case grid_get b start_pos of
               Inl e \<Rightarrow> Some (Inl e)
             | Inr v \<Rightarrow>
                 (case grid_set b end_pos v of
                    Inl e \<Rightarrow> Some (Inl e)
                  | Inr b1 \<Rightarrow>
                      (case grid_set b1 start_pos None of
                         Inl e \<Rightarrow> Some (Inl e)
                       | Inr b2 \<Rightarrow> Some (Inr (True, b2)))))
          else Some (Inr (False, b)))"

section \<open>\<open>Game\<close>\<close>

record game =
  board :: board
  current_turn :: color
  game_over :: bool

text \<open>\<open>Game.__init__\<close> builds a fresh \<open>Board()\<close>, White to move, not over.\<close>

definition Game_init :: "error + game" where
  "Game_init =
     (case Board_init of
        Inl e \<Rightarrow> Inl e
      | Inr b \<Rightarrow> Inr \<lparr>board = b, current_turn = WHITE, game_over = False\<rparr>)"

definition start_game :: "game \<Rightarrow> error + game" where
  "start_game g =
     (case setup_pieces (board g) of
        Inl e \<Rightarrow> Inl e
      | Inr b \<Rightarrow> Inr (g\<lparr>board := b, current_turn := WHITE, game_over := False\<rparr>))"

text \<open>
  \<open>Game.move(self, player, start_pos, end_pos)\<close> has the body \<open>pass\<close>: it returns Python's
  \<open>None\<close> (here \<open>None :: bool option\<close>, no boolean at all) and leaves the game as it was.
\<close>

definition move :: "game \<Rightarrow> color \<Rightarrow> pos \<Rightarrow> pos \<Rightarrow> bool option \<times> game" where
  "move g player start_pos end_pos = (None, g)"

definition end_game :: "game \<Rightarrow> string \<times> game" where
  "end_game g = (''Game over.'', g\<lparr>game_over := True\<rparr>)"

text \<open>
  The calls a client can make on a game between two \<open>start_game\<close> calls, and their
  effect on the game in sequence.
\<close>

datatype game_call = Call_move color pos pos | Call_end_game

fun run_call :: "game \<Rightarrow> game_call \<Rightarrow> game" where
  "run_call g (Call_move player s e) = snd (move g player s e)"
| "run_call g Call_end_game = snd (end_game g)"

definition run_calls :: "game \<Rightarrow> game_call list \<Rightarrow> game" where
  "run_calls g cs = foldl run_call g cs"

section \<open>Vocabulary of the specification\<close>

text \<open>
  A well-formed grid has eight rows of eight squares, as \<open>Board.__init__\<close> builds it; no
  method changes the shape. A coordinate pair is in bounds when both parts are in
  \<open>[0, 8)\<close>. \<open>square\<close> reads an in-bounds square.
\<close>

definition wf_board :: "board \<Rightarrow> bool" where
  "wf_board b \<longleftrightarrow> length b = 8 \<and> list_all (\<lambda>row. length row = 8) b"

definition in_bounds :: "pos \<Rightarrow> bool" where
  "in_bounds p \<longleftrightarrow> 0 \<le> fst p \<and> fst p < 8 \<and> 0 \<le> snd p \<and> snd p < 8"

definition square :: "board \<Rightarrow> pos \<Rightarrow> piece option" where
  "square b p = b ! nat (fst p) ! nat (snd p)"

text \<open>The standard starting position, rank by rank.\<close>

definition back_rank :: "color \<Rightarrow> piece option list" where
  "back_rank c =
     map (\<lambda>k. Some (Piece k c)) [Rook, Knight, Bishop, Queen, King, Bishop, Knight, Rook]"

definition initial_layout :: board where
  "initial_layout =
     [back_rank WHITE, replicate 8 (Some (Piece Pawn WHITE)),
      replicate 8 None, replicate 8 None, replicate 8 None, replicate 8 None,
      replicate 8 (Some (Piece Pawn BLACK)), back_rank BLACK]"

text \<open>
  \<open>along p step n\<close> is the square reached from \<open>p\<close> after \<open>n\<close> additions of \<open>step\<close>, the
  value of \<open>(current_row, current_col)\<close> after \<open>n\<close> rounds of the loop started at \<open>p\<close>.
\<close>

definition along :: "pos \<Rightarrow> pos \<Rightarrow> nat \<Rightarrow> pos" where
  "along p step n = (fst p + int n * fst step, snd p + int n * snd step)"

text \<open>
  Alignment as the spec words it: a shared row or column for the Rook, a diagonal
  (\<open>|\<Delta>row| = |\<Delta>col|\<close>) for the Bishop, either for the Queen.
\<close>

definition same_line :: "pos \<Rightarrow> pos \<Rightarrow> bool" where
  "same_line s e \<longleftrightarrow> fst s = fst e \<or> snd s = snd e"

definition same_diagonal :: "pos \<Rightarrow> pos \<Rightarrow> bool" where
  "same_diagonal s e \<longleftrightarrow> \<bar>fst e - fst s\<bar> = \<bar>snd e - snd s\<bar>"

text \<open>
  The pawn's direction of advance and home row, and the three shapes of pawn move that
  the spec names: one step straight, two steps straight from the home row, one step
  forward into a neighbouring column.
\<close>

definition forward :: "color \<Rightarrow> int" where
  "forward c = (case c of WHITE \<Rightarrow> 1 | BLACK \<Rightarrow> - 1)"

definition home_row :: "color \<Rightarrow> int" where
  "home_row c = (case c of WHITE \<Rightarrow> 1 | BLACK \<Rightarrow> 6)"

definition pawn_shape :: "color \<Rightarrow> pos \<Rightarrow> pos \<Rightarrow> bool" where
  "pawn_shape c s e \<longleftrightarrow>
     (snd e = snd s \<and> fst e = fst s + forward c)
     \<or> (snd e = snd s \<and> fst e = fst s + 2 * forward c \<and> fst s = home_row c)
     \<or> (\<bar>snd e - snd s\<bar> = 1 \<and> fst e = fst s + forward c)"

text \<open>
  The starting position with White's pawn moved from \<open>(1, 4)\<close> to \<open>(3, 4)\<close>, and the grid
  that differs from the starting position by one extra pawn on \<open>(3, 4)\<close>.
\<close>

definition after_pawn_push :: board where
  "after_pawn_push =
     [back_rank WHITE,
      (replicate 8 (Some (Piece Pawn WHITE)))[4 := None],
      replicate 8 None,
      (replicate 8 None)[4 := Some (Piece Pawn WHITE)],
      replicate 8 None, replicate 8 None,
      replicate 8 (Some (Piece Pawn BLACK)), back_rank BLACK]"

definition layout_with_stray_pawn :: board where
  "layout_with_stray_pawn =
     [back_rank WHITE, replicate 8 (Some (Piece Pawn WHITE)),
      replicate 8 None,
      (replicate 8 None)[4 := Some (Piece Pawn WHITE)],
      replicate 8 None, replicate 8 None,
      replicate 8 (Some (Piece Pawn BLACK)), back_rank BLACK]"

section \<open>Properties\<close>

subsection \<open>Reading in-bounds squares\<close>

lemma wf_row_length: "wf_board b \<Longrightarrow> k < 8 \<Longrightarrow> length (b ! k) = 8"
  by (simp add: wf_board_def list_all_length)

lemma grid_get_in_bounds:
  "wf_board b \<Longrightarrow> in_bounds p \<Longrightarrow> grid_get b p = Inr (square b p)"
proof -
  assume wf: "wf_board b" and ib: "in_bounds p"
  have r: "nat (fst p) < 8"
    using ib by (auto simp add: in_bounds_def)
  have len: "length b = 8" using wf by (simp add: wf_board_def)
  have rl: "length (b ! nat (fst p)) = 8" using wf r by (rule wf_row_length)
  show ?thesis
    using ib len rl
    by (simp add: grid_get_def py_getitem_def py_norm_def in_bounds_def square_def)
qed

subsection \<open>What \<open>setup_pieces\<close> writes\<close>

lemma length_8_explicit:
  "length xs = 8 \<Longrightarrow> \<exists>a0 a1 a2 a3 a4 a5 a6 a7. xs = [a0, a1, a2, a3, a4, a5, a6, a7]"
  by (auto simp add: eval_nat_numeral length_Suc_conv)

lemma upt_8: "[0..<8] = [0, 1, 2, 3, 4, 5, 6, 7 :: nat]"
  by code_simp

lemma setup_assignments_explicit:
  "setup_assignments =
     [((0, 0), Piece Rook WHITE), ((0, 1), Piece Knight WHITE), ((0, 2), Piece Bishop WHITE),
      ((0, 3), Piece Queen WHITE), ((0, 4), Piece King WHITE), ((0, 5), Piece Bishop WHITE),
      ((0, 6), Piece Knight WHITE), ((0, 7), Piece Rook WHITE),
      ((1, 0), Piece Pawn WHITE), ((1, 1), Piece Pawn WHITE), ((1, 2), Piece Pawn WHITE),
      ((1, 3), Piece Pawn WHITE), ((1, 4), Piece Pawn WHITE), ((1, 5), Piece Pawn WHITE),
      ((1, 6), Piece Pawn WHITE), ((1, 7), Piece Pawn WHITE),
      ((7, 0), Piece Rook BLACK), ((7, 1), Piece Knight BLACK), ((7, 2), Piece Bishop BLACK),
      ((7, 3), Piece Queen BLACK), ((7, 4), Piece King BLACK), ((7, 5), Piece Bishop BLACK),
      ((7, 6), Piece Knight BLACK), ((7, 7), Piece Rook BLACK),
      ((6, 0), Piece Pawn BLACK), ((6, 1), Piece Pawn BLACK), ((6, 2), Piece Pawn BLACK),
      ((6, 3), Piece Pawn BLACK), ((6, 4), Piece Pawn BLACK), ((6, 5), Piece Pawn BLACK),
      ((6, 6), Piece Pawn BLACK), ((6, 7), Piece Pawn BLACK)]"
  by (simp add: setup_assignments_def upt_8)

lemma setup_pieces_char:
  assumes wf: "wf_board b"
  shows "setup_pieces b
         = Inr [back_rank WHITE, replicate 8 (Some (Piece Pawn WHITE)),
                b ! 2, b ! 3, b ! 4, b ! 5,
                replicate 8 (Some (Piece Pawn BLACK)), back_rank BLACK]"
proof -
  have "length b = 8" using wf by (simp add: wf_board_def)
  then obtain r0 r1 r2 r3 r4 r5 r6 r7 where b: "b = [r0, r1, r2, r3, r4, r5, r6, r7]"
    using length_8_explicit by blast
  have "length r0 = 8" "length r1 = 8" "length r6 = 8" "length r7 = 8"
    using wf by (simp_all add: wf_board_def b)
  then obtain a0 a1 a2 a3 a4 a5 a6 a7 b0 b1 b2 b3 b4 b5 b6 b7
    g0 g1 g2 g3 g4 g5 g6 g7 h0 h1 h2 h3 h4 h5 h6 h7
    where r: "r0 = [a0, a1, a2, a3, a4, a5, a6, a7]" "r1 = [b0, b1, b2, b3, b4, b5, b6, b7]"
      "r6 = [g0, g1, g2, g3, g4, g5, g6, g7]" "r7 = [h0, h1, h2, h3, h4, h5, h6, h7]"
    using length_8_explicit by metis
  show ?thesis
    by (simp add: setup_pieces_def setup_assignments_explicit b r grid_set_def py_setitem_def
        py_norm_def back_rank_def eval_nat_numeral)
qed

lemma setup_pieces_wf:
  assumes wf: "wf_board b"
  shows "\<exists>b'. setup_pieces b = Inr b' \<and> wf_board b' \<and> setup_pieces b' = Inr b'"
proof -
  let ?b' = "[back_rank WHITE, replicate 8 (Some (Piece Pawn WHITE)),
              b ! 2, b ! 3, b ! 4, b ! 5,
              replicate 8 (Some (Piece Pawn BLACK)), back_rank BLACK]"
  have rows: "length (b ! 2) = 8" "length (b ! 3) = 8" "length (b ! 4) = 8" "length (b ! 5) = 8"
    using wf by (simp_all add: wf_row_length)
  have wf': "wf_board ?b'"
    using rows by (simp add: wf_board_def back_rank_def)
  have "setup_pieces ?b' = Inr ?b'"
    using setup_pieces_char [OF wf'] by simp
  then show ?thesis
    using setup_pieces_char [OF wf] wf' by simp
qed

lemma Board_init_layout: "Board_init = Inr initial_layout"
  by code_simp

lemma run_calls_keeps_game_over: "game_over g \<Longrightarrow> game_over (run_calls g cs)"
proof (induction cs arbitrary: g)
  case Nil
  then show ?case by (simp add: run_calls_def)
next
  case (Cons c cs)
  have "game_over (run_call g c)"
    using Cons.prems by (cases c) (simp_all add: move_def end_game_def)
  then have "game_over (run_calls (run_call g c) cs)" by (rule Cons.IH)
  then show ?case by (simp add: run_calls_def)
qed

subsection \<open>The path walk reaches its destination only by stepping onto it\<close>

lemma along_0: "along p step 0 = p"
  by (simp add: along_def)

lemma path_walk_arrives_aux:
  assumes "path_walk b cur step e = Some r"
  shows "r = Inr True \<longrightarrow> (\<exists>n. along cur step n = e)"
proof (rule path_walk.raw_induct
    [where P = "\<lambda>b cur step e r. r = Inr True \<longrightarrow> (\<exists>n. along cur step n = e)", OF _ assms])
  fix pw :: "board \<Rightarrow> pos \<Rightarrow> pos \<Rightarrow> pos \<Rightarrow> (error + bool) option"
    and b cur step e r
  assume IH: "\<And>b cur step e y. pw b cur step e = Some y \<Longrightarrow>
                y = Inr True \<longrightarrow> (\<exists>n. along cur step n = e)"
  assume body: "(if cur = e then Some (Inr True)
      else case is_occupied b cur of Inl x \<Rightarrow> Some (Inl x)
           | Inr occ \<Rightarrow>
               if occ then Some (Inr False)
               else pw b (fst cur + fst step, snd cur + snd step) step e) = Some r"
  show "r = Inr True \<longrightarrow> (\<exists>n. along cur step n = e)"
  proof (cases "cur = e")
    case True
    then have "along cur step 0 = e" by (simp add: along_0)
    then show ?thesis by blast
  next
    case False
    show ?thesis
    proof
      assume r: "r = Inr True"
      with False body
      have "pw b (fst cur + fst step, snd cur + snd step) step e = Some r"
        by (auto split: sum.splits if_splits)
      from IH [OF this] r obtain n
        where "along (fst cur + fst step, snd cur + snd step) step n = e" by blast
      then have "along cur step (Suc n) = e" by (simp add: along_def algebra_simps)
      then show "\<exists>n. along cur step n = e" by blast
    qed
  qed
qed

lemma path_walk_arrives:
  "path_walk b cur step e = Some (Inr True) \<Longrightarrow> \<exists>n. along cur step n = e"
  using path_walk_arrives_aux by blast

lemma Bishop_zero_walk_never_arrives:
  "path_walk b (fst s - 1, snd s - 1) (- 1, - 1) s \<noteq> Some (Inr True)"
proof
  assume "path_walk b (fst s - 1, snd s - 1) (- 1, - 1) s = Some (Inr True)"
  then obtain n where "along (fst s - 1, snd s - 1) (- 1, - 1) n = s"
    using path_walk_arrives by blast
  then show False by (cases s) (simp add: along_def)
qed

subsection \<open>What the piece rules, the legality gate and the move return on the source\<close>

lemma dest_free_or_enemy_raises: "dest_free_or_enemy c b p = Inl AttributeError"
  by (simp add: dest_free_or_enemy_def is_occupied_def)

lemma path_walk_source:
  "path_walk b cur step e = (if cur = e then Some (Inr True) else Some (Inl AttributeError))"
  by (subst path_walk.simps) (simp add: is_occupied_def)

lemma slide_raises: "slide c b s step e = Some (Inl AttributeError)"
  by (simp add: slide_def path_walk_source dest_free_or_enemy_raises)

lemma King_can_move_source:
  "King_can_move c b s e
   = (if \<bar>fst e - fst s\<bar> \<le> 1 \<and> \<bar>snd e - snd s\<bar> \<le> 1 then Inl AttributeError else Inr False)"
  by (simp add: King_can_move_def dest_free_or_enemy_raises)

lemma Queen_can_move_source:
  "Queen_can_move c b s e
   = Some (if same_line s e \<or> same_diagonal s e then Inl AttributeError else Inr False)"
  by (auto simp add: Queen_can_move_def Let_def slide_raises same_line_def same_diagonal_def)

lemma Rook_can_move_source:
  "Rook_can_move c b s e = Some (if same_line s e then Inl AttributeError else Inr False)"
  by (auto simp add: Rook_can_move_def Let_def slide_raises same_line_def)

lemma Bishop_can_move_source:
  "Bishop_can_move c b s e = Some (if same_diagonal s e then Inl AttributeError else Inr False)"
  by (auto simp add: Bishop_can_move_def Let_def slide_raises same_diagonal_def)

lemma Knight_can_move_source:
  "Knight_can_move c b s e
   = (if (\<bar>fst e - fst s\<bar> = 2 \<and> \<bar>snd e - snd s\<bar> = 1)
         \<or> (\<bar>fst e - fst s\<bar> = 1 \<and> \<bar>snd e - snd s\<bar> = 2)
      then Inl AttributeError else Inr False)"
  by (simp add: Knight_can_move_def dest_free_or_enemy_raises)

lemma Pawn_can_move_source:
  "Pawn_can_move c b s e = (if pawn_shape c s e then Inl AttributeError else Inr False)"
  by (cases c)
    (auto simp add: Pawn_can_move_def pawn_shape_def forward_def home_row_def
      is_occupied_def get_piece_def Let_def)

lemma can_move_never_true: "can_move p b s e \<noteq> Some (Inr True)"
  by (cases "kind p")
    (simp_all add: can_move_def King_can_move_source Queen_can_move_source
      Rook_can_move_source Bishop_can_move_source Knight_can_move_source Pawn_can_move_source)

lemma can_move_stops: "\<exists>r. can_move p b s e = Some r"
  by (cases "kind p")
    (simp_all add: can_move_def Queen_can_move_source Rook_can_move_source
      Bishop_can_move_source)

lemma is_valid_move_source:
  assumes "wf_board b"
  shows "is_valid_move b s e
         = (if \<not> (in_bounds s \<and> in_bounds e) then Some (Inr False)
            else (case square b s of
                    None \<Rightarrow> Some (Inr False)
                  | Some p \<Rightarrow> can_move p b s e))"
proof (cases "in_bounds s \<and> in_bounds e")
  case False
  then show ?thesis by (auto simp add: is_valid_move_def in_bounds_def)
next
  case True
  then have guard: "0 \<le> fst s \<and> fst s < 8 \<and> 0 \<le> snd s \<and> snd s < 8
             \<and> 0 \<le> fst e \<and> fst e < 8 \<and> 0 \<le> snd e \<and> snd e < 8"
    by (simp add: in_bounds_def)
  have gs: "grid_get b s = Inr (square b s)"
    using assms True by (simp add: grid_get_in_bounds)
  show ?thesis
  proof (cases "square b s")
    case None
    then show ?thesis using True guard gs by (simp add: is_valid_move_def)
  next
    case (Some p)
    from can_move_stops obtain r where r: "can_move p b s e = Some r" by blast
    have "r \<noteq> Inr True" using can_move_never_true [of p b s e] r by simp
    then show ?thesis
      using True guard gs Some r by (cases r) (auto simp add: is_valid_move_def)
  qed
qed

lemma is_valid_move_outcome: "\<exists>r. is_valid_move b s e = Some r \<and> r \<noteq> Inr True"
proof (cases "0 \<le> fst s \<and> fst s < 8 \<and> 0 \<le> snd s \<and> snd s < 8
             \<and> 0 \<le> fst e \<and> fst e < 8 \<and> 0 \<le> snd e \<and> snd e < 8")
  case False
  then have "is_valid_move b s e = Some (Inr False)"
    unfolding is_valid_move_def by (simp only: if_True not_False_eq_True)
  then show ?thesis by simp
next
  case guard: True
  show ?thesis
  proof (cases "grid_get b s")
    case (Inl x)
    then have "is_valid_move b s e = Some (Inl x)"
      using guard by (simp add: is_valid_move_def)
    then show ?thesis by simp
  next
    case (Inr v)
    show ?thesis
    proof (cases v)
      case None
      then have "is_valid_move b s e = Some (Inr False)"
        using guard Inr by (simp add: is_valid_move_def)
      then show ?thesis by simp
    next
      case (Some p)
      from can_move_stops obtain r where r: "can_move p b s e = Some r" by blast
      have nt: "r \<noteq> Inr True" using can_move_never_true [of p b s e] r by simp
      show ?thesis
      proof (cases r)
        case (Inl x)
        then have "is_valid_move b s e = Some (Inl x)"
          using guard Inr Some r by (simp add: is_valid_move_def)
        then show ?thesis by simp
      next
        case (Inr ok)
        with nt have "\<not> ok" by simp
        then have "is_valid_move b s e = Some (Inr False)"
          using guard \<open>grid_get b s = Inr v\<close> Some r Inr by (simp add: is_valid_move_def)
        then show ?thesis by simp
      qed
    qed
  qed
qed

lemma is_valid_move_never_true: "is_valid_move b s e \<noteq> Some (Inr True)"
  using is_valid_move_outcome [of b s e] by auto

lemma is_valid_move_stops: "\<exists>r. is_valid_move b s e = Some r"
  using is_valid_move_outcome [of b s e] by auto

lemma move_piece_source:
  "move_piece b s e
   = (case is_valid_move b s e of
        None \<Rightarrow> None
      | Some (Inl x) \<Rightarrow> Some (Inl x)
      | Some (Inr v) \<Rightarrow> Some (Inr (False, b)))"
proof -
  from is_valid_move_outcome obtain r
    where r: "is_valid_move b s e = Some r" "r \<noteq> Inr True" by blast
  show ?thesis
  proof (cases r)
    case (Inl x)
    then show ?thesis using r by (simp add: move_piece_def)
  next
    case (Inr v)
    with r have "\<not> v" by simp
    then show ?thesis using r Inr by (simp add: move_piece_def)
  qed
qed

lemma move_piece_outcome:
  "move_piece b s e = Some (Inr (False, b)) \<or> (\<exists>x. move_piece b s e = Some (Inl x))"
proof -
  from is_valid_move_outcome obtain r
    where r: "is_valid_move b s e = Some r" by blast
  then show ?thesis by (cases r) (simp_all add: move_piece_source)
qed

lemma move_piece_never_true: "move_piece b s e \<noteq> Some (Inr (True, b'))"
  using move_piece_outcome [of b s e] by auto

lemma move_piece_invalid:
  "is_valid_move b s e = Some (Inr False) \<Longrightarrow> move_piece b s e = Some (Inr (False, b))"
  by (simp add: move_piece_def)

lemma move_piece_stops: "\<exists>r. move_piece b s e = Some r"
  using move_piece_outcome [of b s e] by auto

section \<open>The claims\<close>

text \<open>
  Claim C1 says that \<open>is_valid_move\<close> returns a boolean and never raises, answering true
  for a move that passes every check. On the source it raises \<open>AttributeError\<close> for every
  move whose piece rule reaches a board query: in the starting position the pawn moves
  \<open>(1, 4)\<close> to \<open>(3, 4)\<close> and \<open>(1, 4)\<close> to \<open>(2, 4)\<close> and the knight move \<open>(0, 1)\<close> to \<open>(2, 2)\<close>,
  all legal by the spec, raise. The refusals that need no query are returned: a
  coordinate out of range, an empty start square.
\<close>

theorem is_valid_move_raises_on_legal_moves:
  "is_valid_move initial_layout (1, 4) (3, 4) = Some (Inl AttributeError)
   \<and> is_valid_move initial_layout (1, 4) (2, 4) = Some (Inl AttributeError)
   \<and> is_valid_move initial_layout (0, 1) (2, 2) = Some (Inl AttributeError)
   \<and> is_valid_move initial_layout (1, 4) (8, 4) = Some (Inr False)
   \<and> is_valid_move initial_layout (3, 3) (4, 4) = Some (Inr False)"
  by code_simp

text \<open>
  Claim C2 says that \<open>Board\<close> provides the queries \<open>is_occupied\<close> and \<open>get_piece\<close>. The
  class defines neither: looking either name up on a \<open>Board\<close> raises \<open>AttributeError\<close>.
\<close>

theorem Board_lacks_is_occupied_and_get_piece:
  "Board_getattr ''is_occupied'' = Inl AttributeError
   \<and> Board_getattr ''get_piece'' = Inl AttributeError"
  by (simp add: Board_getattr_def Board_methods_def Board_attributes_def)

text \<open>
  Claim C3 says that \<open>setup_pieces\<close> restores the starting position from any board.
  It does not: on the starting position with White's pawn moved from \<open>(1, 4)\<close> to
  \<open>(3, 4)\<close>, \<open>setup_pieces\<close> and \<open>start_game\<close> leave that pawn on \<open>(3, 4)\<close>, a square that
  is empty in the starting position, next to the sixteen White pieces written afresh.
\<close>

theorem setup_pieces_keeps_rows_2_to_5:
  "setup_pieces after_pawn_push = Inr layout_with_stray_pawn
   \<and> square after_pawn_push (3, 4) = Some (Piece Pawn WHITE)
   \<and> square layout_with_stray_pawn (3, 4) = Some (Piece Pawn WHITE)
   \<and> square initial_layout (3, 4) = None
   \<and> start_game \<lparr>board = after_pawn_push, current_turn = BLACK, game_over = False\<rparr>
     = Inr \<lparr>board = layout_with_stray_pawn, current_turn = WHITE, game_over = False\<rparr>"
  by code_simp


text \<open>
  Claim C5 gives the pawn rule: a straight advance onto an empty square, a double advance
  from the home row over two empty squares and a diagonal capture are legal. On the
  source \<open>Pawn.can_move\<close> raises \<open>AttributeError\<close> on each of these shapes, whatever the
  squares hold, because each consults \<open>board.is_occupied\<close> or \<open>board.get_piece\<close>: the
  single and the double advance of the pawn on \<open>(1, 4)\<close>, the capture of the pawn on
  \<open>(3, 4)\<close> by a Black pawn on \<open>(4, 3)\<close>, and the diagonal step onto the empty \<open>(2, 5)\<close>,
  which the claim says is refused. The double advance from a row that is not the home
  row is refused without a query.
\<close>

theorem Pawn_can_move_raises:
  "can_move (Piece Pawn WHITE) initial_layout (1, 4) (2, 4) = Some (Inl AttributeError)
   \<and> can_move (Piece Pawn WHITE) initial_layout (1, 4) (3, 4) = Some (Inl AttributeError)
   \<and> square after_pawn_push (3, 4) = Some (Piece Pawn WHITE)
   \<and> can_move (Piece Pawn BLACK) after_pawn_push (4, 3) (3, 4) = Some (Inl AttributeError)
   \<and> square initial_layout (2, 5) = None
   \<and> can_move (Piece Pawn WHITE) initial_layout (1, 4) (2, 5) = Some (Inl AttributeError)
   \<and> can_move (Piece Pawn WHITE) after_pawn_push (3, 4) (5, 4) = Some (Inr False)"
  by code_simp

text \<open>
  Claim C6 says that Queen, Rook and Bishop return false for an aligned move with an
  occupied square in between. On the source they raise \<open>AttributeError\<close> at the first
  query of the walk: the Rook from \<open>(0, 0)\<close> to \<open>(0, 4)\<close> past the knight on \<open>(0, 1)\<close>, the
  Queen from \<open>(0, 3)\<close> to \<open>(2, 3)\<close> and the Bishop from \<open>(0, 2)\<close> to \<open>(2, 4)\<close> past the pawn
  on \<open>(1, 3)\<close>. A move that is not aligned is refused, as the claim says.
\<close>

theorem sliding_pieces_raise_when_blocked:
  "square initial_layout (0, 1) \<noteq> None
   \<and> can_move (Piece Rook WHITE) initial_layout (0, 0) (0, 4) = Some (Inl AttributeError)
   \<and> square initial_layout (1, 3) \<noteq> None
   \<and> can_move (Piece Queen WHITE) initial_layout (0, 3) (2, 3) = Some (Inl AttributeError)
   \<and> can_move (Piece Bishop WHITE) initial_layout (0, 2) (2, 4) = Some (Inl AttributeError)
   \<and> can_move (Piece Rook WHITE) initial_layout (0, 0) (2, 1) = Some (Inr False)
   \<and> can_move (Piece Bishop WHITE) initial_layout (0, 2) (0, 4) = Some (Inr False)
   \<and> can_move (Piece Queen WHITE) initial_layout (0, 3) (2, 4) = Some (Inr False)"
  by code_simp

text \<open>
  Claim C7 says that the move from \<open>start\<close> to \<open>start\<close> is always rejected, for the King
  because the destination holds a piece of its own colour. On the source the King on
  \<open>(0, 4)\<close> passes the distance test and then raises \<open>AttributeError\<close> at
  \<open>board.is_occupied\<close>, before any colour is compared; Queen, Rook and Bishop raise too.
  Only Knight and Pawn, whose geometry refuses the zero move, return false.
\<close>

theorem zero_move_raises_for_King_Queen_Rook_Bishop:
  "square initial_layout (0, 4) = Some (Piece King WHITE)
   \<and> can_move (Piece King WHITE) initial_layout (0, 4) (0, 4) = Some (Inl AttributeError)
   \<and> square initial_layout (0, 3) = Some (Piece Queen WHITE)
   \<and> can_move (Piece Queen WHITE) initial_layout (0, 3) (0, 3) = Some (Inl AttributeError)
   \<and> square initial_layout (0, 0) = Some (Piece Rook WHITE)
   \<and> can_move (Piece Rook WHITE) initial_layout (0, 0) (0, 0) = Some (Inl AttributeError)
   \<and> square initial_layout (0, 2) = Some (Piece Bishop WHITE)
   \<and> can_move (Piece Bishop WHITE) initial_layout (0, 2) (0, 2) = Some (Inl AttributeError)
   \<and> square initial_layout (0, 1) = Some (Piece Knight WHITE)
   \<and> can_move (Piece Knight WHITE) initial_layout (0, 1) (0, 1) = Some (Inr False)
   \<and> square initial_layout (1, 0) = Some (Piece Pawn WHITE)
   \<and> can_move (Piece Pawn WHITE) initial_layout (1, 0) (1, 0) = Some (Inr False)"
  by code_simp

text \<open>
  Claim C8 says that every operation terminates with a result and that the walks of the
  sliding pieces always reach the destination. Every operation does stop (the lemmas
  above), but the Bishop's walk for a zero move cannot reach its destination:
  \<open>Bishop.can_move\<close> has no zero step, so for the Bishop on \<open>(0, 2)\<close> the walk starts at
  \<open>(-1, 1)\<close> with step \<open>(-1, -1)\<close> and moves away, where the Queen's walk for the same
  input starts on the destination and is over at once. The Bishop's walk ends at its
  first query, which raises \<open>AttributeError\<close>, and so does \<open>is_valid_move\<close>: no result
  is produced.
\<close>

theorem Bishop_zero_delta_walk_misses_destination:
  "is_valid_move initial_layout (0, 2) (0, 2) = Some (Inl AttributeError)
   \<and> can_move (Piece Bishop WHITE) initial_layout (0, 2) (0, 2) = Some (Inl AttributeError)
   \<and> along (0, 2) (- 1, - 1) 1 = (- 1, 1)
   \<and> path_walk initial_layout (- 1, 1) (- 1, - 1) (0, 2) = Some (Inl AttributeError)
   \<and> along (0, 2) (0, 0) 1 = (0, 2)
   \<and> path_walk initial_layout (0, 2) (0, 0) (0, 2) = Some (Inr True)"
  by code_simp

text \<open>
  Claim C9. \<open>Game.move\<close> does nothing: for every claimed player and every pair of
  positions it returns \<open>None\<close>, no success or failure signal, and leaves the board, the
  turn and the game-over flag as they were.
\<close>

theorem Game_move_is_a_stub:
  "fst (move g player start_pos end_pos) = None
   \<and> snd (move g player start_pos end_pos) = g
   \<and> board (snd (move g player start_pos end_pos)) = board g
   \<and> current_turn (snd (move g player start_pos end_pos)) = current_turn g
   \<and> game_over (snd (move g player start_pos end_pos)) = game_over g"
  by (simp add: move_def)

text \<open>
  Claim C10. From any game on an 8 by 8 board, \<open>start_game\<close> returns normally with
  White to move, the game not over and the board that \<open>setup_pieces\<close> makes of the
  current one, and a second \<open>start_game\<close> changes nothing more. \<open>end_game\<close> returns
  the confirmation \<open>Game over.\<close>, sets \<open>game_over\<close> and touches nothing else, and
  \<open>game_over\<close> stays set through any later calls of \<open>move\<close> and \<open>end_game\<close>.
\<close>

theorem start_game_and_end_game:
  assumes "wf_board (board g)"
  shows "(\<exists>g'. start_game g = Inr g' \<and> current_turn g' = WHITE \<and> \<not> game_over g'
            \<and> setup_pieces (board g) = Inr (board g') \<and> start_game g' = Inr g')
    \<and> fst (end_game g) = ''Game over.''
    \<and> game_over (snd (end_game g))
    \<and> board (snd (end_game g)) = board g
    \<and> current_turn (snd (end_game g)) = current_turn g
    \<and> (\<forall>cs. game_over (run_calls (snd (end_game g)) cs))"
proof (intro conjI allI)
  from setup_pieces_wf [OF assms] obtain b'
    where b': "setup_pieces (board g) = Inr b'" "setup_pieces b' = Inr b'" by blast
  let ?g' = "g\<lparr>board := b', current_turn := WHITE, game_over := False\<rparr>"
  have "start_game g = Inr ?g'" by (simp add: start_game_def b')
  moreover have "start_game ?g' = Inr ?g'" by (simp add: start_game_def b')
  ultimately show "\<exists>g'. start_game g = Inr g' \<and> current_turn g' = WHITE \<and> \<not> game_over g'
            \<and> setup_pieces (board g) = Inr (board g') \<and> start_game g' = Inr g'"
    using b' by simp
next
  fix cs
  have "game_over (snd (end_game g))" by (simp add: end_game_def)
  then show "game_over (run_calls (snd (end_game g)) cs)"
    by (rule run_calls_keeps_game_over)
qed (simp_all add: end_game_def)

theorem start_game_and_end_game_witness:
  "wf_board (board \<lparr>board = after_pawn_push, current_turn = BLACK, game_over = True\<rparr>)
   \<and> start_game \<lparr>board = after_pawn_push, current_turn = BLACK, game_over = True\<rparr>
     = Inr \<lparr>board = layout_with_stray_pawn, current_turn = WHITE, game_over = False\<rparr>
   \<and> game_over (run_calls
        (snd (end_game \<lparr>board = after_pawn_push, current_turn = BLACK, game_over = False\<rparr>))
        [Call_move BLACK (6, 4) (4, 4), Call_end_game])"
proof -
  have wf: "wf_board after_pawn_push" by code_simp
  have st: "setup_pieces after_pawn_push = Inr layout_with_stray_pawn" by code_simp
  let ?g = "\<lparr>board = after_pawn_push, current_turn = BLACK, game_over = True\<rparr>"
  let ?h = "\<lparr>board = after_pawn_push, current_turn = BLACK, game_over = False\<rparr>"
  have wfg: "wf_board (board ?g)" and wfh: "wf_board (board ?h)" using wf by simp_all
  from start_game_and_end_game [OF wfg] obtain g'
    where g': "start_game ?g = Inr g'" "current_turn g' = WHITE" "\<not> game_over g'"
      "setup_pieces (board ?g) = Inr (board g')"
    by blast
  have "start_game ?g
        = Inr \<lparr>board = layout_with_stray_pawn, current_turn = WHITE, game_over = False\<rparr>"
    using g' st by (simp add: start_game_def)
  moreover have "game_over (run_calls (snd (end_game ?h))
        [Call_move BLACK (6, 4) (4, 4), Call_end_game])"
    using start_game_and_end_game [OF wfh] by blast
  ultimately show ?thesis using wfg by simp
qed

end
